theory Spec2Isabelle
  imports Complex_Main
begin

section \<open>JavaScript values used by the client\<close>

text \<open>
  Strings are byte lists. The empty string is the only falsy string, so the source's
  \<^verbatim>\<open>a || b\<close> on strings picks \<open>b\<close> exactly when \<open>a\<close> is empty.
\<close>

definition str_or :: "string \<Rightarrow> string \<Rightarrow> string" where
  "str_or a b = (if a = [] then b else a)"

text \<open>\<^verbatim>\<open>x || null\<close> / \<^verbatim>\<open>x || undefined\<close> on an optional string.\<close>

definition truthy_str :: "string option \<Rightarrow> string option" where
  "truthy_str x = (case x of None \<Rightarrow> None | Some s \<Rightarrow> if s = [] then None else Some s)"

text \<open>\<^verbatim>\<open>x || d\<close> where \<open>x\<close> is an optional array or object (always truthy when present).\<close>

definition or_default :: "'a option \<Rightarrow> 'a \<Rightarrow> 'a" where
  "or_default x d = (case x of None \<Rightarrow> d | Some v \<Rightarrow> v)"

text \<open>Decimal rendering of a non-negative integer inside a template literal.\<close>

definition digit_char :: "nat \<Rightarrow> char" where
  "digit_char d = ''0123456789'' ! d"

fun string_of_nat :: "nat \<Rightarrow> string" where
  "string_of_nat n =
     (if n < 10 then [digit_char n] else string_of_nat (n div 10) @ [digit_char (n mod 10)])"

declare string_of_nat.simps [simp del]

text \<open>\<^verbatim>\<open>String.prototype.trim\<close>, on the ASCII white space characters.\<close>

definition is_ws :: "char \<Rightarrow> bool" where
  "is_ws c = (c = CHR '' '' \<or> c = CHR 0x09 \<or> c = CHR 0x0A \<or> c = CHR 0x0B
              \<or> c = CHR 0x0C \<or> c = CHR 0x0D)"

definition trim :: "string \<Rightarrow> string" where
  "trim s = rev (dropWhile is_ws (rev (dropWhile is_ws s)))"

text \<open>\<^verbatim>\<open>s.startsWith(p)\<close> and \<^verbatim>\<open>s.split('\n')\<close>.\<close>

definition startsWith :: "string \<Rightarrow> string \<Rightarrow> bool" where
  "startsWith s p = (take (length p) s = p)"

fun split_nl :: "string \<Rightarrow> string list" where
  "split_nl [] = [[]]"
| "split_nl (c # cs) =
     (if c = CHR 0x0A then [] # split_nl cs
      else (case split_nl cs of [] \<Rightarrow> [[c]] | l # ls \<Rightarrow> (c # l) # ls))"

text \<open>\<^verbatim>\<open>toLowerCase\<close> on ASCII letters.\<close>

definition lower_char :: "char \<Rightarrow> char" where
  "lower_char c =
     (case map_of (zip ''ABCDEFGHIJKLMNOPQRSTUVWXYZ'' ''abcdefghijklmnopqrstuvwxyz'') c of
        Some l \<Rightarrow> l
      | None \<Rightarrow> c)"

definition toLowerCase :: "string \<Rightarrow> string" where
  "toLowerCase s = map lower_char s"

text \<open>
  A JavaScript number: only whether it is \<open>NaN\<close> or zero matters to the client (both are
  falsy); finite values are kept as rationals.
\<close>

datatype js_number = NaN | Num rat

text \<open>An \<^verbatim>\<open>Error\<close> object; the client only ever reads its \<^verbatim>\<open>message\<close>.\<close>

datatype js_error = Error string

fun error_message :: "js_error \<Rightarrow> string" where
  "error_message (Error m) = m"

text \<open>A value of an answer map: \<^verbatim>\<open>string | number | boolean | null\<close>.\<close>

datatype answer = Str string | Number js_number | Boolean bool | Null

text \<open>
  A \<^verbatim>\<open>Record<string, ...>\<close> object as an association list in insertion order.
  Reading a key gives \<open>None\<close> for \<^verbatim>\<open>undefined\<close>; writing a key replaces the value in
  place or adds the key at the end. (JavaScript enumerates integer-like keys first; the
  order of keys is read by nothing below.)
\<close>

type_synonym answers = "(string \<times> answer) list"

definition obj_get :: "answers \<Rightarrow> string \<Rightarrow> answer option" where
  "obj_get obj k = map_of obj k"

fun obj_set :: "answers \<Rightarrow> string \<Rightarrow> answer \<Rightarrow> answers" where
  "obj_set [] k v = [(k, v)]"
| "obj_set ((k', v') # rest) k v =
     (if k' = k then (k, v) # rest else (k', v') # obj_set rest k v)"

text \<open>The spread \<^verbatim>\<open>{ ...a, ...b }\<close>: every entry of \<open>b\<close> is written into \<open>a\<close>, in order.\<close>

fun obj_spread :: "answers \<Rightarrow> answers \<Rightarrow> answers" where
  "obj_spread a [] = a"
| "obj_spread a ((k, v) # rest) = obj_spread (obj_set a k v) rest"

text \<open>Truthiness of \<^verbatim>\<open>answers[key]\<close>.\<close>

fun answer_truthy :: "answer option \<Rightarrow> bool" where
  "answer_truthy None = False"
| "answer_truthy (Some Null) = False"
| "answer_truthy (Some (Str s)) = (s \<noteq> [])"
| "answer_truthy (Some (Boolean b)) = b"
| "answer_truthy (Some (Number NaN)) = False"
| "answer_truthy (Some (Number (Num r))) = (r \<noteq> 0)"

section \<open>The API client (\<^verbatim>\<open>src/lib/api.ts\<close>)\<close>

text \<open>The response envelope \<^verbatim>\<open>APIResponse<T>\<close> of \<^verbatim>\<open>src/lib/types.ts\<close>.\<close>

record 'b APIResponse =
  resp_error :: bool
  resp_message :: string
  resp_body :: "'b option"

text \<open>
  \<^verbatim>\<open>handleResponse\<close>: an error envelope throws its message, or a fixed text when the
  message is empty; a null body throws a fixed text; otherwise the body is returned.
\<close>

definition handleResponse :: "'b APIResponse \<Rightarrow> js_error + 'b" where
  "handleResponse data =
     (if resp_error data then Inl (Error (str_or (resp_message data) ''API returned an error''))
      else (case resp_body data of
              None \<Rightarrow> Inl (Error ''API returned null body'')
            | Some b \<Rightarrow> Inr b))"

text \<open>
  What the backend does with one request: the transport fails, or a response arrives with
  an HTTP status and an envelope.
\<close>

datatype 'b http_outcome = NetworkFailure js_error | HttpResponse nat "'b APIResponse"

record File =
  file_name :: string
  file_type :: string
  file_size :: nat

datatype http_method = GET | POST | DELETE

datatype request_body =
    NoBody
  | FormData File
  | TemplateMatchRequest string
  | QuestionRequest string "string option"
  | GenerateDraftRequest string answers "string option"

record http_request =
  req_method :: http_method
  req_url :: string
  req_body :: request_body

type_synonym 'b backend = "http_request \<Rightarrow> 'b http_outcome"

text \<open>
  \<^verbatim>\<open>apiClient\<close> is \<^verbatim>\<open>axios.create({ baseURL, headers })\<close>: no \<^verbatim>\<open>validateStatus\<close> and no
  interceptor is configured, so the library's default applies. The promise resolves with
  the response for a status in 200..299 and rejects with the library's own error, whose
  message is \<^verbatim>\<open>'Request failed with status code ' + status\<close>, for any other status.
\<close>

definition validateStatus :: "nat \<Rightarrow> bool" where
  "validateStatus status = (200 \<le> status \<and> status < 300)"

definition apiClient :: "'b backend \<Rightarrow> http_request \<Rightarrow> js_error + 'b APIResponse" where
  "apiClient backend req =
     (case backend req of
        NetworkFailure e \<Rightarrow> Inl e
      | HttpResponse status data \<Rightarrow>
          if validateStatus status then Inr data
          else Inl (Error (''Request failed with status code '' @ string_of_nat status)))"

text \<open>\<^verbatim>\<open>return handleResponse(await apiClient.<method>(...))\<close>.\<close>

definition request_then_unwrap :: "'b backend \<Rightarrow> http_request \<Rightarrow> js_error + 'b" where
  "request_then_unwrap backend req =
     (case apiClient backend req of Inl e \<Rightarrow> Inl e | Inr data \<Rightarrow> handleResponse data)"

definition uploadDocument :: "'b backend \<Rightarrow> File \<Rightarrow> js_error + 'b" where
  "uploadDocument backend file =
     request_then_unwrap backend
       \<lparr>req_method = POST, req_url = ''/api/v1/upload'', req_body = FormData file\<rparr>"

definition getTemplates :: "'b backend \<Rightarrow> nat \<Rightarrow> nat \<Rightarrow> js_error + 'b" where
  "getTemplates backend skip limit =
     request_then_unwrap backend
       \<lparr>req_method = GET,
        req_url = ''/api/v1/template?skip='' @ string_of_nat skip @ ''&limit='' @ string_of_nat limit,
        req_body = NoBody\<rparr>"

definition getTemplate :: "'b backend \<Rightarrow> string \<Rightarrow> js_error + 'b" where
  "getTemplate backend templateId =
     request_then_unwrap backend
       \<lparr>req_method = GET, req_url = ''/api/v1/template/'' @ templateId, req_body = NoBody\<rparr>"

definition deleteTemplate :: "'b backend \<Rightarrow> string \<Rightarrow> js_error + 'b" where
  "deleteTemplate backend templateId =
     request_then_unwrap backend
       \<lparr>req_method = DELETE, req_url = ''/api/v1/template/'' @ templateId, req_body = NoBody\<rparr>"

definition matchTemplate :: "'b backend \<Rightarrow> string \<Rightarrow> js_error + 'b" where
  "matchTemplate backend query =
     request_then_unwrap backend
       \<lparr>req_method = POST, req_url = ''/api/v1/draft/match'',
        req_body = TemplateMatchRequest query\<rparr>"

definition getQuestions :: "'b backend \<Rightarrow> string \<Rightarrow> string option \<Rightarrow> js_error + 'b" where
  "getQuestions backend templateId userQuery =
     request_then_unwrap backend
       \<lparr>req_method = POST, req_url = ''/api/v1/draft/questions'',
        req_body = QuestionRequest templateId (truthy_str userQuery)\<rparr>"

definition generateDraft ::
  "'b backend \<Rightarrow> string \<Rightarrow> answers \<Rightarrow> string option \<Rightarrow> js_error + 'b" where
  "generateDraft backend templateId answers userQuery =
     request_then_unwrap backend
       \<lparr>req_method = POST, req_url = ''/api/v1/draft/generate'',
        req_body = GenerateDraftRequest templateId answers userQuery\<rparr>"

section \<open>The streaming match operation (\<^verbatim>\<open>matchTemplateStream\<close>)\<close>

record TemplateMatch =
  tm_template_id :: string
  tm_title :: string
  tm_confidence :: js_number
  tm_explanation :: string
  tm_doc_type :: "string option"
  tm_jurisdiction :: "string option"
  tm_semantic_similarity :: "js_number option"
  tm_source :: string
  tm_web_url :: "string option"

record TemplateMatchResponseBody =
  tmr_top_match :: "TemplateMatch option"
  tmr_alternatives :: "TemplateMatch list"
  tmr_found :: bool
  tmr_message :: "string option"

record SSEStatusUpdate =
  sse_status :: string
  sse_message :: string
  sse_data :: "TemplateMatchResponseBody option"

text \<open>The two callbacks the caller passes in; a run of the stream is the list of calls made.\<close>

datatype callback = OnStatusUpdate SSEStatusUpdate | OnError js_error

text \<open>
  \<^verbatim>\<open>JSON.parse\<close> is a parameter \<open>parse\<close> of the model: \<open>None\<close> when it throws, the decoded
  status event otherwise.
\<close>

type_synonym json_parse = "string \<Rightarrow> SSEStatusUpdate option"

definition terminal_status :: "string \<Rightarrow> bool" where
  "terminal_status s = (s = ''success'' \<or> s = ''error'' \<or> s = ''no_templates'')"

text \<open>
  The \<^verbatim>\<open>for (const line of lines)\<close> loop. The result is the callbacks fired, and whether
  the loop left the whole function by \<^verbatim>\<open>return\<close> (terminal status or parse failure).
  Neither callback is guarded by the \<^verbatim>\<open>canceled\<close> flag here.
\<close>

fun process_lines :: "json_parse \<Rightarrow> string list \<Rightarrow> callback list \<times> bool" where
  "process_lines parse [] = ([], False)"
| "process_lines parse (line # rest) =
     (if startsWith line ''data: '' then
        (case parse (drop 6 line) of
           None \<Rightarrow> ([OnError (Error ''Failed to parse server response'')], True)
         | Some data \<Rightarrow>
             if terminal_status (sse_status data) then ([OnStatusUpdate data], True)
             else (case process_lines parse rest of (cs, returned) \<Rightarrow> (OnStatusUpdate data # cs, returned)))
      else process_lines parse rest)"

text \<open>
  The asynchronous task is suspended either on the \<^verbatim>\<open>fetch\<close> promise or on a pending
  \<^verbatim>\<open>reader.read()\<close> (with the text buffered so far), or it is over.
\<close>

datatype stream_phase = AwaitingFetch | AwaitingRead string | Finished

record stream_state =
  canceled :: bool
  phase :: stream_phase

text \<open>
  What can happen next, in the order the event loop delivers it: the fetch settles, the
  pending read settles, or the caller invokes the returned cancellation handle.
  \<open>FetchResolved ok status has_reader\<close> carries \<^verbatim>\<open>response.ok\<close>, \<^verbatim>\<open>response.status\<close> and
  whether \<^verbatim>\<open>response.body?.getReader()\<close> gave a reader.
\<close>

datatype stream_event =
    FetchResolved bool nat bool
  | FetchRejected js_error
  | ReadChunk string
  | ReadDone
  | ReadRejected js_error
  | Cancel

definition initial_stream :: stream_state where
  "initial_stream = \<lparr>canceled = False, phase = AwaitingFetch\<rparr>"

text \<open>The \<^verbatim>\<open>.catch\<close> handler: the error callback fires only if not cancelled.\<close>

definition catch_handler :: "js_error \<Rightarrow> stream_state \<Rightarrow> stream_state \<times> callback list" where
  "catch_handler e st = (st\<lparr>phase := Finished\<rparr>, if \<not> canceled st then [OnError e] else [])"

text \<open>
  One resumption of the task. After a chunk, the lines before the last newline are
  processed in full; the \<^verbatim>\<open>while (!canceled)\<close> test is made only afterwards, before the
  next read is issued.
\<close>

definition stream_step ::
  "json_parse \<Rightarrow> stream_event \<Rightarrow> stream_state \<Rightarrow> stream_state \<times> callback list" where
  "stream_step parse ev st =
     (case (ev, phase st) of
        (Cancel, _) \<Rightarrow> (st\<lparr>canceled := True\<rparr>, [])
      | (FetchResolved ok status has_reader, AwaitingFetch) \<Rightarrow>
          if \<not> ok then catch_handler (Error (''HTTP error! status: '' @ string_of_nat status)) st
          else if \<not> has_reader then catch_handler (Error ''No reader available'') st
          else if canceled st then (st\<lparr>phase := Finished\<rparr>, [])
          else (st\<lparr>phase := AwaitingRead []\<rparr>, [])
      | (FetchRejected e, AwaitingFetch) \<Rightarrow> catch_handler e st
      | (ReadChunk v, AwaitingRead buffer) \<Rightarrow>
          (let lines = split_nl (buffer @ v);
               buffer' = last lines;
               (cs, returned) = process_lines parse (butlast lines)
           in if returned \<or> canceled st then (st\<lparr>phase := Finished\<rparr>, cs)
              else (st\<lparr>phase := AwaitingRead buffer'\<rparr>, cs))
      | (ReadDone, AwaitingRead buffer) \<Rightarrow> (st\<lparr>phase := Finished\<rparr>, [])
      | (ReadRejected e, AwaitingRead buffer) \<Rightarrow> catch_handler e st
      | _ \<Rightarrow> (st, []))"

text \<open>A run: every event with the callbacks it fired and the flag as it stood on arrival.\<close>

fun run_stream ::
  "json_parse \<Rightarrow> stream_event list \<Rightarrow> stream_state \<Rightarrow> (bool \<times> callback) list" where
  "run_stream parse [] st = []"
| "run_stream parse (ev # evs) st =
     (case stream_step parse ev st of
        (st', cs) \<Rightarrow> map (\<lambda>c. (canceled st, c)) cs @ run_stream parse evs st')"

text \<open>The callbacks that fired although cancellation had already been requested.\<close>

definition callbacks_after_cancel ::
  "json_parse \<Rightarrow> stream_event list \<Rightarrow> callback list" where
  "callbacks_after_cancel parse evs =
     map snd (filter fst (run_stream parse evs initial_stream))"

section \<open>The chat page (\<^verbatim>\<open>src/app/chat/page.tsx\<close>): data\<close>

record Question =
  q_key :: string
  q_question :: string
  q_description :: "string option"
  q_example :: "string option"
  q_required :: bool
  q_dtype :: string
  q_regex :: "string option"
  q_enum_values :: "string list option"

record GenerateDraftResponseBody =
  draft_md :: string
  draft_instance_id :: js_number
  draft_template_id :: string
  draft_template_title :: string
  draft_missing_variables :: "string list"
  draft_has_missing_variables :: bool

datatype message_type = User | Assistant | System

record metadata =
  md_templateMatches :: "TemplateMatch list option"
  md_questions :: "Question list option"
  md_draft :: "GenerateDraftResponseBody option"
  md_prefilled :: "answers option"

text \<open>Dates are milliseconds since the epoch.\<close>

record Message =
  msg_id :: string
  msg_type :: message_type
  msg_content :: string
  msg_timestamp :: nat
  msg_metadata :: "metadata option"

record ChatSession =
  cs_id :: string
  cs_title :: string
  cs_messages :: "Message list"
  cs_createdAt :: nat
  cs_updatedAt :: nat
  cs_templateId :: "string option"
  cs_questions :: "Question list option"
  cs_answers :: "answers option"
  cs_draft :: "GenerateDraftResponseBody option"

datatype tab = Variables | Document

text \<open>
  The component's state: the \<^verbatim>\<open>useState\<close> cells that the session logic reads or writes,
  and \<^verbatim>\<open>isProcessingRef.current\<close> as \<open>isProcessing\<close>. The cells that only drive the
  presentation (history drawer, slash-command menu, toast) are left out.
\<close>

record chat_state =
  chatHistory :: "ChatSession list"
  currentChatId :: "string option"
  messages :: "Message list"
  userQuery :: string
  error :: "string option"
  isLoading :: bool
  topMatch :: "TemplateMatch option"
  alternatives :: "TemplateMatch list"
  selectedTemplateId :: "string option"
  answers :: answers
  questions :: "Question list"
  prefilledFields :: answers
  draft :: "GenerateDraftResponseBody option"
  showSidebar :: bool
  activeTab :: tab
  isProcessing :: bool

text \<open>
  The requests that the handlers modelled below issue, in order: the call of
  \<^verbatim>\<open>matchTemplateStream(query, ...)\<close> and the call of \<^verbatim>\<open>getQuestions(templateId, userQuery)\<close>.
\<close>

datatype effect =
    MatchTemplateStream string
  | GetQuestions string "string option"

section \<open>The chat page: message list\<close>

text \<open>
  The assignment \<^verbatim>\<open>arr[i] = v\<close> on a copy of the list. An index inside the list replaces
  the element and the index \<^verbatim>\<open>arr.length\<close> appends. A negative index is not an array index:
  the write creates the property \<^verbatim>\<open>"-1"\<close> on the array object, and the length and the
  elements stay as they are. The client only ever writes at \<^verbatim>\<open>arr.length - 1\<close>, so an
  index beyond the length does not arise.
\<close>

definition js_assign_index :: "'a list \<Rightarrow> int \<Rightarrow> 'a \<Rightarrow> 'a list" where
  "js_assign_index arr i v =
     (if i < 0 then arr
      else if i < int (length arr) then arr[nat i := v]
      else if i = int (length arr) then arr @ [v]
      else arr)"

text \<open>
  \<^verbatim>\<open>addMessage(type, content, metadata, replaceLast, appendToLast)\<close>. The fresh identifier
  (clock and random digits) and the clock reading are the parameters \<open>newId\<close> and \<open>now\<close>.
  No statement of the function can throw.
\<close>

definition addMessage ::
  "string \<Rightarrow> nat \<Rightarrow> message_type \<Rightarrow> string \<Rightarrow> metadata option \<Rightarrow> bool \<Rightarrow> bool
     \<Rightarrow> chat_state \<Rightarrow> chat_state" where
  "addMessage newId now type content md replaceLast appendToLast st =
     (let newMessage = \<lparr>msg_id = newId, msg_type = type, msg_content = content,
                         msg_timestamp = now, msg_metadata = md\<rparr>;
          prev = messages st
      in if replaceLast then
           st\<lparr>messages := js_assign_index prev (int (length prev) - 1) newMessage\<rparr>
         else if appendToLast then
           st\<lparr>messages :=
                (if length prev > 0 then
                   js_assign_index prev (int (length prev) - 1)
                     ((prev ! (length prev - 1))
                        \<lparr>msg_content :=
                           msg_content (prev ! (length prev - 1)) @ [CHR 0x0A, CHR 0x0A] @ content\<rparr>)
                 else prev @ [newMessage])\<rparr>
         else st\<lparr>messages := prev @ [newMessage]\<rparr>)"

section \<open>The chat page: session store\<close>

definition generateChatTitle :: "string \<Rightarrow> string" where
  "generateChatTitle firstMessage = trim firstMessage"

fun findIndex :: "('a \<Rightarrow> bool) \<Rightarrow> 'a list \<Rightarrow> nat option" where
  "findIndex P [] = None"
| "findIndex P (x # xs) = (if P x then Some 0 else map_option Suc (findIndex P xs))"

text \<open>
  The session object that both \<^verbatim>\<open>updateCurrentChatInHistory\<close> and \<^verbatim>\<open>createNewChat\<close>
  build from the current state. Both dates are read from the clock, \<open>now\<close>.
\<close>

definition session_of_state :: "string \<Rightarrow> nat \<Rightarrow> chat_state \<Rightarrow> ChatSession" where
  "session_of_state chatId now st =
     \<lparr>cs_id = chatId,
      cs_title = (case find (\<lambda>msg. msg_type msg = User) (messages st) of
                    Some firstUserMessage \<Rightarrow> generateChatTitle (msg_content firstUserMessage)
                  | None \<Rightarrow> ''New Chat''),
      cs_messages = messages st,
      cs_createdAt = now,
      cs_updatedAt = now,
      cs_templateId = truthy_str (selectedTemplateId st),
      cs_questions = (if length (questions st) > 0 then Some (questions st) else None),
      cs_answers = (if length (answers st) > 0 then Some (answers st) else None),
      cs_draft = draft st\<rparr>"

text \<open>The upsert: replace the first session with this identifier, or put the session in front.\<close>

definition upsert_session :: "ChatSession \<Rightarrow> ChatSession list \<Rightarrow> ChatSession list" where
  "upsert_session chat prev =
     (case findIndex (\<lambda>c. cs_id c = cs_id chat) prev of
        Some existingIndex \<Rightarrow> prev[existingIndex := chat]
      | None \<Rightarrow> chat # prev)"

definition updateCurrentChatInHistory :: "nat \<Rightarrow> chat_state \<Rightarrow> chat_state" where
  "updateCurrentChatInHistory now st =
     (case truthy_str (currentChatId st) of
        None \<Rightarrow> st
      | Some chatId \<Rightarrow>
          if length (messages st) = 0 then st
          else st\<lparr>chatHistory := upsert_session (session_of_state chatId now st) (chatHistory st)\<rparr>)"

text \<open>
  The effect that runs after every change of the messages, the selected template, the
  questions, the answers, the draft or the current identifier.
\<close>

definition history_effect :: "nat \<Rightarrow> chat_state \<Rightarrow> chat_state" where
  "history_effect now st =
     (if truthy_str (currentChatId st) \<noteq> None \<and> length (messages st) > 0
      then updateCurrentChatInHistory now st else st)"

definition createNewChat :: "string \<Rightarrow> nat \<Rightarrow> chat_state \<Rightarrow> chat_state" where
  "createNewChat newChatId now st =
     (let st1 = (case truthy_str (currentChatId st) of
                   None \<Rightarrow> st
                 | Some chatId \<Rightarrow>
                     if length (messages st) > 0
                     then st\<lparr>chatHistory :=
                               upsert_session (session_of_state chatId now st) (chatHistory st)\<rparr>
                     else st)
      in st1\<lparr>currentChatId := Some newChatId, messages := [], userQuery := [], error := None,
             isLoading := False, topMatch := None, alternatives := [],
             selectedTemplateId := None, answers := [], questions := [],
             prefilledFields := [], draft := None, showSidebar := False,
             activeTab := Variables\<rparr>)"

definition switchToChat :: "string \<Rightarrow> chat_state \<Rightarrow> chat_state" where
  "switchToChat chatId st =
     (case find (\<lambda>c. cs_id c = chatId) (chatHistory st) of
        None \<Rightarrow> st
      | Some chat \<Rightarrow>
          st\<lparr>currentChatId := Some chatId,
             messages := cs_messages chat,
             selectedTemplateId := truthy_str (cs_templateId chat),
             questions := or_default (cs_questions chat) [],
             answers := or_default (cs_answers chat) [],
             prefilledFields := [],
             draft := cs_draft chat,
             showSidebar := ((case cs_questions chat of None \<Rightarrow> False | Some qs \<Rightarrow> length qs > 0)
                             \<or> cs_draft chat \<noteq> None),
             activeTab := (if cs_draft chat \<noteq> None then Document else Variables)\<rparr>)"

section \<open>The chat page: answers\<close>

definition handleAnswerChange :: "string \<Rightarrow> answer \<Rightarrow> chat_state \<Rightarrow> chat_state" where
  "handleAnswerChange variableName v st = st\<lparr>answers := obj_set (answers st) variableName v\<rparr>"

text \<open>
  The value written for an example, by declared data type. \<^verbatim>\<open>Number(...)\<close> is the parameter
  \<open>toNumber\<close>.
\<close>

definition example_value :: "(string \<Rightarrow> js_number) \<Rightarrow> string \<Rightarrow> string \<Rightarrow> answer" where
  "example_value toNumber dtype example =
     (if dtype = ''number'' \<or> dtype = ''int'' \<or> dtype = ''float'' then Number (toNumber example)
      else if dtype = ''boolean''
        then Boolean (toLowerCase example = ''true'' \<or> toLowerCase example = ''yes'')
      else Str example)"

text \<open>
  The body of \<^verbatim>\<open>questions.forEach\<close>: the guard is
  \<^verbatim>\<open>question.example && (!answers[question.key] || answers[question.key] === '')\<close>,
  on the answers as they were when the handler was called.
\<close>

definition fill_question ::
  "(string \<Rightarrow> js_number) \<Rightarrow> answers \<Rightarrow> answers \<Rightarrow> Question \<Rightarrow> answers" where
  "fill_question toNumber current examples question =
     (case truthy_str (q_example question) of
        None \<Rightarrow> examples
      | Some example \<Rightarrow>
          if \<not> answer_truthy (obj_get current (q_key question))
             \<or> obj_get current (q_key question) = Some (Str [])
          then obj_set examples (q_key question) (example_value toNumber (q_dtype question) example)
          else examples)"

definition handleFillWithExamples :: "(string \<Rightarrow> js_number) \<Rightarrow> chat_state \<Rightarrow> chat_state" where
  "handleFillWithExamples toNumber st =
     (let examples = foldl (fill_question toNumber (answers st)) [] (questions st)
      in st\<lparr>answers := obj_spread (answers st) examples\<rparr>)"

section \<open>The chat page: matching\<close>

text \<open>
  \<^verbatim>\<open>handleGetQuestions\<close> up to its first \<^verbatim>\<open>await\<close>: two state writes and the call of
  \<^verbatim>\<open>getQuestions(templateId, userQuery)\<close>, with the query text the closure captured.
\<close>

definition handleGetQuestions_begin ::
  "string \<Rightarrow> string \<Rightarrow> chat_state \<Rightarrow> chat_state \<times> effect list" where
  "handleGetQuestions_begin capturedQuery templateId st =
     (st\<lparr>error := None, isLoading := True\<rparr>, [GetQuestions templateId (Some capturedQuery)])"

text \<open>
  \<^verbatim>\<open>handleStartMatching(queryOverride)\<close>. \<open>newChatId\<close> and \<open>newId\<close> are the identifiers
  that \<^verbatim>\<open>createNewChat\<close> and \<^verbatim>\<open>addMessage\<close> would draw.
\<close>

definition handleStartMatching ::
  "string \<Rightarrow> string \<Rightarrow> nat \<Rightarrow> string option \<Rightarrow> chat_state \<Rightarrow> chat_state \<times> effect list" where
  "handleStartMatching newChatId newId now queryOverride st =
     (let query = (case truthy_str queryOverride of Some q \<Rightarrow> q | None \<Rightarrow> userQuery st)
      in if trim query = [] then (st\<lparr>error := Some ''Please enter a description''\<rparr>, [])
         else
           (let st1 = (if truthy_str (currentChatId st) = None
                       then createNewChat newChatId now st else st)
            in if isProcessing st1 then (st1, [])
               else
                 (let st2 = st1\<lparr>isProcessing := True\<rparr>;
                      st3 = st2\<lparr>error := None, isLoading := True\<rparr>;
                      st4 = (if truthy_str queryOverride = None then st3\<lparr>userQuery := []\<rparr> else st3);
                      st5 = addMessage newId now User query None False False st4
                  in (st5, [MatchTemplateStream query]))))"

text \<open>The status texts. The two icons are the bytes that stand in the source file.\<close>

definition searching_text :: string where
  "searching_text =
     [CHR 0xEF, CHR 0xA3, CHR 0xBF, CHR 0xC3, CHR 0xBC, CHR 0xC3, CHR 0xAE, CHR 0xC3, CHR 0xA7]
     @ '' Searching for matching templates...''"

definition searching_web_text :: string where
  "searching_web_text =
     [CHR 0xEF, CHR 0xA3, CHR 0xBF, CHR 0xC3, CHR 0xBC, CHR 0xC3, CHR 0xA5, CHR 0xC3, CHR 0xAA]
     @ '' Searching the web for templates...''"

definition no_match_text :: string where
  "no_match_text =
     ''I couldn&apos;t find a matching template for your request. Try uploading a document first or refining your query with more specific details about the legal document you need.''"

definition no_metadata :: metadata where
  "no_metadata = \<lparr>md_templateMatches = None, md_questions = None, md_draft = None,
                  md_prefilled = None\<rparr>"

text \<open>The end of a terminal branch: \<^verbatim>\<open>setIsLoading(false); isProcessingRef.current = false\<close>.\<close>

definition finish_matching :: "chat_state \<Rightarrow> chat_state" where
  "finish_matching st = st\<lparr>isLoading := False, isProcessing := False\<rparr>"

text \<open>The status callback passed to \<^verbatim>\<open>matchTemplateStream\<close>.\<close>

definition match_onStatusUpdate ::
  "string \<Rightarrow> string \<Rightarrow> nat \<Rightarrow> SSEStatusUpdate \<Rightarrow> chat_state \<Rightarrow> chat_state \<times> effect list" where
  "match_onStatusUpdate capturedQuery newId now update st =
     (if sse_status update = ''searching'' then
        (addMessage newId now Assistant searching_text None False False st, [])
      else if sse_status update = ''searching_web'' then
        (addMessage newId now Assistant searching_web_text None True False st, [])
      else if sse_status update = ''success'' \<and> sse_data update \<noteq> None then
        (case sse_data update of
           None \<Rightarrow> (st, [])
         | Some result \<Rightarrow>
             (case tmr_top_match result of
                None \<Rightarrow>
                  (finish_matching (addMessage newId now Assistant no_match_text None True False st), [])
              | Some top_match \<Rightarrow>
                  if \<not> tmr_found result then
                    (finish_matching (addMessage newId now Assistant no_match_text None True False st), [])
                  else
                    (let st1 = st\<lparr>topMatch := Some top_match, alternatives := tmr_alternatives result\<rparr>
                     in if length (tmr_alternatives result) > 0 then
                          (finish_matching
                             (addMessage newId now Assistant
                                (''I found '' @ string_of_nat (length (tmr_alternatives result) + 1)
                                   @ '' matching templates. Here are the options:'')
                                (Some (no_metadata\<lparr>md_templateMatches :=
                                                      Some (top_match # tmr_alternatives result)\<rparr>))
                                True False st1), [])
                        else
                          (let st2 = addMessage newId now Assistant
                                       (''Perfect! I found a matching template: '' @ [CHR 0x22]
                                          @ tm_title top_match @ [CHR 0x22]
                                          @ ''. Let me generate some questions to help create your document.'')
                                       None True False st1;
                               st3 = st2\<lparr>selectedTemplateId := Some (tm_template_id top_match)\<rparr>;
                               (st4, requests) =
                                 handleGetQuestions_begin capturedQuery (tm_template_id top_match) st3
                           in (finish_matching st4, requests)))))
      else if sse_status update = ''error'' then
        (finish_matching
           (addMessage newId now Assistant
              (''I encountered an error: '' @ str_or (sse_message update) ''Failed to match template''
                 @ ''. Please try again.'')
              None True False st), [])
      else if sse_status update = ''no_templates'' then
        (finish_matching (addMessage newId now Assistant no_match_text None True False st), [])
      else (st, []))"

text \<open>The error callback passed to \<^verbatim>\<open>matchTemplateStream\<close>.\<close>

definition match_onError :: "string \<Rightarrow> nat \<Rightarrow> js_error \<Rightarrow> chat_state \<Rightarrow> chat_state" where
  "match_onError newId now e st =
     finish_matching
       (addMessage newId now Assistant
          (''I encountered an error: '' @ str_or (error_message e) ''Connection failed''
             @ ''. Please try again.'')
          None True False st)"

text \<open>
  The consumer run over the calls a stream makes, each with the identifier and the clock
  reading its \<^verbatim>\<open>addMessage\<close> draws.
\<close>

fun match_consume ::
  "string \<Rightarrow> (string \<times> nat \<times> callback) list \<Rightarrow> chat_state \<Rightarrow> chat_state \<times> effect list" where
  "match_consume capturedQuery [] st = (st, [])"
| "match_consume capturedQuery ((newId, now, OnStatusUpdate update) # rest) st =
     (case match_onStatusUpdate capturedQuery newId now update st of
        (st', requests) \<Rightarrow>
          (case match_consume capturedQuery rest st' of
             (st'', requests') \<Rightarrow> (st'', requests @ requests')))"
| "match_consume capturedQuery ((newId, now, OnError e) # rest) st =
     match_consume capturedQuery rest (match_onError newId now e st)"

text \<open>Whether a message offers a template choice: the view renders one for such metadata.\<close>

definition offers_template_choice :: "Message \<Rightarrow> bool" where
  "offers_template_choice msg =
     (case msg_metadata msg of None \<Rightarrow> False | Some md \<Rightarrow> md_templateMatches md \<noteq> None)"

section \<open>The chat page: user actions on the session store\<close>

text \<open>
  Only \<^verbatim>\<open>switchToChat\<close> and \<^verbatim>\<open>createNewChat\<close> write the current identifier, and only they
  and the history effect write the history list. Every other handler is a \<open>Local\<close> update:
  whatever it computes, the history list and the current identifier stay as they were.
\<close>

datatype action = SwitchToChat string | CreateNewChat string | Local "chat_state \<Rightarrow> chat_state"

definition local_update :: "(chat_state \<Rightarrow> chat_state) \<Rightarrow> chat_state \<Rightarrow> chat_state" where
  "local_update u st = (u st)\<lparr>chatHistory := chatHistory st, currentChatId := currentChatId st\<rparr>"

text \<open>
  One action at clock reading \<open>now\<close>: the state writes of the handler take effect
  together, and the history effect runs on the resulting state.
\<close>

definition perform :: "nat \<Rightarrow> action \<Rightarrow> chat_state \<Rightarrow> chat_state" where
  "perform now a st =
     history_effect now
       (case a of
          SwitchToChat chatId \<Rightarrow> switchToChat chatId st
        | CreateNewChat newChatId \<Rightarrow> createNewChat newChatId now st
        | Local u \<Rightarrow> local_update u st)"

fun perform_all :: "(nat \<times> action) list \<Rightarrow> chat_state \<Rightarrow> chat_state" where
  "perform_all [] st = st"
| "perform_all ((now, a) # rest) st = perform_all rest (perform now a st)"

text \<open>An action that does not make the session \<open>sid\<close> current.\<close>

fun stays_away :: "string \<Rightarrow> action \<Rightarrow> bool" where
  "stays_away sid (SwitchToChat chatId) = (chatId \<noteq> sid)"
| "stays_away sid (CreateNewChat newChatId) = (newChatId \<noteq> sid)"
| "stays_away sid (Local u) = True"

section \<open>The upload page\<close>

record 'r upload_state =
  up_file :: "File option"
  up_loading :: bool
  up_error :: "string option"
  up_result :: "'r option"
  up_dragActive :: bool

definition validTypes :: "string list" where
  "validTypes = [''application/pdf'',
                 ''application/vnd.openxmlformats-officedocument.wordprocessingml.document'']"

definition maxSize :: nat where
  "maxSize = 10 * 1024 * 1024"

definition validateFile :: "File \<Rightarrow> string option" where
  "validateFile file =
     (if file_type file \<notin> set validTypes then Some ''Please upload a PDF or DOCX file''
      else if file_size file > maxSize then Some ''File size must be less than 10MB''
      else None)"

text \<open>\<^verbatim>\<open>handleDrop\<close> and \<^verbatim>\<open>handleFileInput\<close>; the argument is \<^verbatim>\<open>files[0]\<close>, if any.\<close>

definition accept_or_report :: "File option \<Rightarrow> 'r upload_state \<Rightarrow> 'r upload_state" where
  "accept_or_report chosen st =
     (case chosen of
        None \<Rightarrow> st
      | Some f \<Rightarrow>
          (case validateFile f of
             Some validationError \<Rightarrow> st\<lparr>up_error := Some validationError\<rparr>
           | None \<Rightarrow> st\<lparr>up_file := Some f\<rparr>))"

definition handleDrop :: "File option \<Rightarrow> 'r upload_state \<Rightarrow> 'r upload_state" where
  "handleDrop chosen st =
     accept_or_report chosen (st\<lparr>up_dragActive := False, up_error := None, up_result := None\<rparr>)"

definition handleFileInput :: "File option \<Rightarrow> 'r upload_state \<Rightarrow> 'r upload_state" where
  "handleFileInput chosen st =
     accept_or_report chosen (st\<lparr>up_error := None, up_result := None\<rparr>)"

text \<open>
  \<^verbatim>\<open>handleUpload\<close> up to its \<^verbatim>\<open>await\<close>: the files handed to \<^verbatim>\<open>uploadDocument\<close> are the
  second component. The two continuations follow.
\<close>

definition handleUpload :: "'r upload_state \<Rightarrow> 'r upload_state \<times> File list" where
  "handleUpload st =
     (case up_file st of
        None \<Rightarrow> (st, [])
      | Some f \<Rightarrow> (st\<lparr>up_loading := True, up_error := None\<rparr>, [f]))"

definition upload_resolved :: "'r \<Rightarrow> 'r upload_state \<Rightarrow> 'r upload_state" where
  "upload_resolved data st = st\<lparr>up_result := Some data, up_file := None, up_loading := False\<rparr>"

definition upload_rejected :: "js_error \<Rightarrow> 'r upload_state \<Rightarrow> 'r upload_state" where
  "upload_rejected e st =
     st\<lparr>up_error := Some (str_or (error_message e) ''Failed to upload document''),
        up_loading := False\<rparr>"

definition handleReset :: "'r upload_state \<Rightarrow> 'r upload_state" where
  "handleReset st = st\<lparr>up_file := None, up_result := None, up_error := None\<rparr>"

datatype 'r upload_event =
    Drop "File option"
  | FileInput "File option"
  | ClickUpload
  | UploadResolved 'r
  | UploadRejected js_error
  | Reset

definition upload_step :: "'r upload_event \<Rightarrow> 'r upload_state \<Rightarrow> 'r upload_state \<times> File list" where
  "upload_step ev st =
     (case ev of
        Drop chosen \<Rightarrow> (handleDrop chosen st, [])
      | FileInput chosen \<Rightarrow> (handleFileInput chosen st, [])
      | ClickUpload \<Rightarrow> handleUpload st
      | UploadResolved data \<Rightarrow> (upload_resolved data st, [])
      | UploadRejected e \<Rightarrow> (upload_rejected e st, [])
      | Reset \<Rightarrow> (handleReset st, []))"

text \<open>Every file sent to the network during a run of the page.\<close>

fun uploaded_files :: "'r upload_event list \<Rightarrow> 'r upload_state \<Rightarrow> File list" where
  "uploaded_files [] st = []"
| "uploaded_files (ev # evs) st =
     (case upload_step ev st of (st', sent) \<Rightarrow> sent @ uploaded_files evs st')"

definition initial_upload_state :: "'r upload_state" where
  "initial_upload_state =
     \<lparr>up_file = None, up_loading = False, up_error = None, up_result = None,
      up_dragActive = False\<rparr>"

section \<open>Concrete data\<close>

text \<open>The state of the chat page when the component mounts.\<close>

definition initial_chat_state :: chat_state where
  "initial_chat_state =
     \<lparr>chatHistory = [], currentChatId = None, messages = [], userQuery = [], error = None,
      isLoading = False, topMatch = None, alternatives = [], selectedTemplateId = None,
      answers = [], questions = [], prefilledFields = [], draft = None, showSidebar = False,
      activeTab = Variables, isProcessing = False\<rparr>"

text \<open>
  Instances of the two parameters, enough to run the examples below: a \<^verbatim>\<open>JSON.parse\<close>
  that decodes one status event and throws on every other text, and a \<^verbatim>\<open>Number\<close> that
  converts two numerals and gives \<open>NaN\<close> otherwise.
\<close>

definition parse_searching_only :: json_parse where
  "parse_searching_only text =
     (if text = ''{\"status\":\"searching\",\"message\":\"Searching templates\"}''
      then Some \<lparr>sse_status = ''searching'', sse_message = ''Searching templates'', sse_data = None\<rparr>
      else None)"

definition toNumber_digits :: "string \<Rightarrow> js_number" where
  "toNumber_digits text = (if text = ''5'' then Num 5 else if text = ''0'' then Num 0 else NaN)"

definition example_match :: TemplateMatch where
  "example_match =
     \<lparr>tm_template_id = ''tpl_lease'', tm_title = ''Residential Lease'', tm_confidence = Num 1,
      tm_explanation = ''Matches a lease request'', tm_doc_type = None, tm_jurisdiction = None,
      tm_semantic_similarity = None, tm_source = ''database'', tm_web_url = None\<rparr>"

definition example_searching :: SSEStatusUpdate where
  "example_searching =
     \<lparr>sse_status = ''searching'', sse_message = ''Searching templates'', sse_data = None\<rparr>"

definition example_success :: SSEStatusUpdate where
  "example_success =
     \<lparr>sse_status = ''success'', sse_message = ''Found'',
      sse_data = Some \<lparr>tmr_top_match = Some example_match, tmr_alternatives = [],
                       tmr_found = True, tmr_message = None\<rparr>\<rparr>"

definition example_message :: Message where
  "example_message =
     \<lparr>msg_id = ''m1'', msg_type = User, msg_content = ''I need a lease'', msg_timestamp = 1,
      msg_metadata = None\<rparr>"

definition example_other_session :: ChatSession where
  "example_other_session =
     \<lparr>cs_id = ''t1'', cs_title = ''A will'', cs_messages = [example_message\<lparr>msg_content := ''A will''\<rparr>],
      cs_createdAt = 0, cs_updatedAt = 0, cs_templateId = None, cs_questions = None,
      cs_answers = None, cs_draft = None\<rparr>"

definition example_state :: chat_state where
  "example_state =
     initial_chat_state
       \<lparr>chatHistory := [example_other_session], currentChatId := Some ''s1'',
        messages := [example_message], selectedTemplateId := Some ''tpl_lease'',
        answers := [(''tenant'', Str ''Ada'')]\<rparr>"

section \<open>Invariants used below\<close>

text \<open>The session \<open>sid\<close> is stored with snapshot \<open>snap\<close> and is not the current one.\<close>

definition away_from :: "string \<Rightarrow> ChatSession \<Rightarrow> chat_state \<Rightarrow> bool" where
  "away_from sid snap st =
     (currentChatId st \<noteq> Some sid \<and> find (\<lambda>c. cs_id c = sid) (chatHistory st) = Some snap)"

text \<open>
  An action that leaves the session \<open>sid\<close>: a switch to another session that is in the
  store, or a new chat.
\<close>

fun departs :: "string \<Rightarrow> ChatSession list \<Rightarrow> action \<Rightarrow> bool" where
  "departs sid store (SwitchToChat chatId) =
     (chatId \<noteq> sid \<and> find (\<lambda>c. cs_id c = chatId) store \<noteq> None)"
| "departs sid store (CreateNewChat newChatId) = (newChatId \<noteq> sid)"
| "departs sid store (Local u) = False"

text \<open>Two snapshots that agree on everything but the identifier, the title and the dates.\<close>

definition same_content :: "ChatSession \<Rightarrow> ChatSession \<Rightarrow> bool" where
  "same_content a b =
     (cs_messages a = cs_messages b \<and> cs_templateId a = cs_templateId b
      \<and> cs_questions a = cs_questions b \<and> cs_answers a = cs_answers b
      \<and> cs_draft a = cs_draft b)"

section \<open>Properties of the API client\<close>

lemma unwrap_error_envelope:
  "backend req = HttpResponse status data \<Longrightarrow> validateStatus status \<Longrightarrow> resp_error data \<Longrightarrow>
   resp_message data \<noteq> [] \<Longrightarrow>
   request_then_unwrap backend req = Inl (Error (resp_message data))"
  by (simp add: request_then_unwrap_def apiClient_def handleResponse_def str_or_def)

lemma unwrap_null_body:
  "backend req = HttpResponse status data \<Longrightarrow> validateStatus status \<Longrightarrow> \<not> resp_error data \<Longrightarrow>
   resp_body data = None \<Longrightarrow>
   request_then_unwrap backend req = Inl (Error ''API returned null body'')"
  by (simp add: request_then_unwrap_def apiClient_def handleResponse_def)

lemma unwrap_rejected_status:
  "backend req = HttpResponse status data \<Longrightarrow> \<not> validateStatus status \<Longrightarrow>
   request_then_unwrap backend req
     = Inl (Error (''Request failed with status code '' @ string_of_nat status))"
  by (simp add: request_then_unwrap_def apiClient_def)

lemma unwrap_empty_error_message:
  "backend req = HttpResponse status data \<Longrightarrow> validateStatus status \<Longrightarrow> resp_error data \<Longrightarrow>
   resp_message data = [] \<Longrightarrow>
   request_then_unwrap backend req = Inl (Error ''API returned an error'')"
  by (simp add: request_then_unwrap_def apiClient_def handleResponse_def str_or_def)

text \<open>
  Claim C2, as amended. For every API client function and every backend response whose
  envelope has \<open>error = true\<close> and message \<open>X\<close>, the function rejects. With a status in
  200..299 the error's message is exactly \<open>X\<close> when \<open>X\<close> is non-empty, and the fixed text
  \<open>API returned an error\<close> when \<open>X\<close> is empty; with any other status it is the HTTP
  client's \<open>Request failed with status code\<close> followed by the status.
\<close>

theorem api_error_envelope_message:
  assumes "\<And>req. backend req = HttpResponse status data"
    and "resp_error data" and "resp_message data = X"
  shows "let rejection =
               Inl (Error (if 200 \<le> status \<and> status < 300
                           then (if X \<noteq> [] then X else ''API returned an error'')
                           else ''Request failed with status code '' @ string_of_nat status))
         in uploadDocument backend file = rejection
          \<and> getTemplates backend skip limit = rejection
          \<and> getTemplate backend templateId = rejection
          \<and> deleteTemplate backend templateId = rejection
          \<and> matchTemplate backend query = rejection
          \<and> getQuestions backend templateId uq = rejection
          \<and> generateDraft backend templateId ans uq' = rejection"
proof -
  have "request_then_unwrap backend req =
          Inl (Error (if 200 \<le> status \<and> status < 300
                      then (if X \<noteq> [] then X else ''API returned an error'')
                      else ''Request failed with status code '' @ string_of_nat status))" for req
    using unwrap_error_envelope [of backend req status data]
      unwrap_empty_error_message [of backend req status data]
      unwrap_rejected_status [of backend req status data] assms
    by (auto simp: validateStatus_def)
  then show ?thesis
    by (simp add: uploadDocument_def getTemplates_def getTemplate_def deleteTemplate_def
        matchTemplate_def getQuestions_def generateDraft_def)
qed

theorem api_error_envelope_message_witness:
  "resp_error \<lparr>resp_error = True, resp_message = ''X'', resp_body = (None :: unit option)\<rparr>
   \<and> uploadDocument
        (\<lambda>_. HttpResponse 200 \<lparr>resp_error = True, resp_message = ''X'', resp_body = (None :: unit option)\<rparr>)
        \<lparr>file_name = ''a.pdf'', file_type = ''application/pdf'', file_size = 1\<rparr>
       = Inl (Error ''X'')
   \<and> getQuestions
        (\<lambda>_. HttpResponse 200 \<lparr>resp_error = True, resp_message = ''X'', resp_body = (None :: unit option)\<rparr>)
        ''t1'' None
       = Inl (Error ''X'')"
  using api_error_envelope_message
    [of "\<lambda>_. HttpResponse 200 \<lparr>resp_error = True, resp_message = ''X'', resp_body = (None :: unit option)\<rparr>"
        200 "\<lparr>resp_error = True, resp_message = ''X'', resp_body = (None :: unit option)\<rparr>" "''X''"]
  by (simp add: Let_def)

text \<open>
  The claim as written fails twice: a status outside 200..299 is rejected by the HTTP
  client with its own message before the envelope is read, and an empty envelope message
  is replaced by a fixed text.
\<close>

theorem api_error_envelope_counterexample:
  "uploadDocument
     (\<lambda>_. HttpResponse 500 \<lparr>resp_error = True, resp_message = ''X'', resp_body = (None :: unit option)\<rparr>)
     \<lparr>file_name = ''a.pdf'', file_type = ''application/pdf'', file_size = 1\<rparr>
     = Inl (Error ''Request failed with status code 500'')
   \<and> ''Request failed with status code 500'' \<noteq> ''X''
   \<and> getTemplate
       (\<lambda>_. HttpResponse 200 \<lparr>resp_error = True, resp_message = [], resp_body = (None :: unit option)\<rparr>)
       ''t1''
     = Inl (Error ''API returned an error'')
   \<and> ''API returned an error'' \<noteq> []"
  by (simp add: uploadDocument_def getTemplate_def request_then_unwrap_def apiClient_def
      validateStatus_def handleResponse_def str_or_def string_of_nat.simps digit_char_def)

text \<open>
  Claim C7, as amended. For every API client function and every backend response whose
  envelope has \<open>error = false\<close> and a null body, the function rejects. With a status in
  200..299 the failure carries the fixed message \<open>API returned null body\<close>; with any other
  status it carries the HTTP client's \<open>Request failed with status code\<close> followed by the
  status. The envelope's message field is not read.
\<close>

theorem api_null_body_fixed_message:
  assumes "\<And>req. backend req = HttpResponse status data"
    and "\<not> resp_error data" and "resp_body data = None"
  shows "let rejection =
               Inl (Error (if 200 \<le> status \<and> status < 300 then ''API returned null body''
                           else ''Request failed with status code '' @ string_of_nat status))
         in uploadDocument backend file = rejection
          \<and> getTemplates backend skip limit = rejection
          \<and> getTemplate backend templateId = rejection
          \<and> deleteTemplate backend templateId = rejection
          \<and> matchTemplate backend query = rejection
          \<and> getQuestions backend templateId uq = rejection
          \<and> generateDraft backend templateId ans uq' = rejection"
proof -
  have "request_then_unwrap backend req =
          Inl (Error (if 200 \<le> status \<and> status < 300 then ''API returned null body''
                      else ''Request failed with status code '' @ string_of_nat status))" for req
    using unwrap_null_body [of backend req status data]
      unwrap_rejected_status [of backend req status data] assms
    by (auto simp: validateStatus_def)
  then show ?thesis
    by (simp add: uploadDocument_def getTemplates_def getTemplate_def deleteTemplate_def
        matchTemplate_def getQuestions_def generateDraft_def)
qed

theorem api_null_body_fixed_message_witness:
  "\<not> resp_error \<lparr>resp_error = False, resp_message = ''Template deleted'',
                   resp_body = (None :: unit option)\<rparr>
   \<and> deleteTemplate
        (\<lambda>_. HttpResponse 204 \<lparr>resp_error = False, resp_message = ''Template deleted'',
                                 resp_body = (None :: unit option)\<rparr>)
        ''t1''
       = Inl (Error ''API returned null body'')"
  using api_null_body_fixed_message
    [of "\<lambda>_. HttpResponse 204 \<lparr>resp_error = False, resp_message = ''Template deleted'',
                                   resp_body = (None :: unit option)\<rparr>"
        204 "\<lparr>resp_error = False, resp_message = ''Template deleted'', resp_body = (None :: unit option)\<rparr>"]
  by (simp add: Let_def)

theorem api_null_body_counterexample:
  "getQuestions
     (\<lambda>_. HttpResponse 200 \<lparr>resp_error = False, resp_message = ''No questions for this template'',
                              resp_body = (None :: unit option)\<rparr>)
     ''t1'' (Some ''a lease'')
     = Inl (Error ''API returned null body'')
   \<and> error_message (Error ''API returned null body'') \<noteq> ''No questions for this template''"
  by (simp add: getQuestions_def request_then_unwrap_def apiClient_def validateStatus_def
      handleResponse_def)

section \<open>Properties of the message list\<close>

text \<open>
  Claim C5. For every message, \<^verbatim>\<open>addMessage\<close> in append-to-last mode on an empty message
  list is a plain append: the result is the state with the one-element list holding the
  new message. The function has no failing branch.
\<close>

theorem addMessage_appendToLast_on_empty:
  "addMessage newId now type content md False True (st\<lparr>messages := []\<rparr>)
     = st\<lparr>messages := [\<lparr>msg_id = newId, msg_type = type, msg_content = content,
                          msg_timestamp = now, msg_metadata = md\<rparr>]\<rparr>"
  by (simp add: addMessage_def)

text \<open>
  Claim C9. For every message, \<^verbatim>\<open>addMessage\<close> in replace-last mode on an empty message
  list leaves the list empty: the write at index \<open>-1\<close> adds no element, and the message is
  dropped. The function has no failing branch.
\<close>

theorem addMessage_replaceLast_on_empty:
  "addMessage newId now type content md True appendToLast (st\<lparr>messages := []\<rparr>)
     = st\<lparr>messages := []\<rparr>"
  by (simp add: addMessage_def js_assign_index_def)

section \<open>Properties of the upload page\<close>

lemma accept_or_report_valid:
  "(\<forall>f. up_file st = Some f \<longrightarrow> validateFile f = None) \<Longrightarrow>
   up_file (accept_or_report chosen st) = Some g \<Longrightarrow> validateFile g = None"
  by (auto simp: accept_or_report_def split: option.splits)

lemma upload_step_valid:
  assumes "\<forall>f. up_file st = Some f \<longrightarrow> validateFile f = None"
    and "upload_step ev st = (st', sent)"
  shows "(\<forall>f. up_file st' = Some f \<longrightarrow> validateFile f = None)
       \<and> (\<forall>f \<in> set sent. validateFile f = None)"
proof (cases ev)
  case (Drop chosen)
  with assms show ?thesis
    by (auto simp: upload_step_def handleDrop_def dest!: accept_or_report_valid [rotated])
next
  case (FileInput chosen)
  with assms show ?thesis
    by (auto simp: upload_step_def handleFileInput_def dest!: accept_or_report_valid [rotated])
next
  case ClickUpload
  with assms show ?thesis
    by (auto simp: upload_step_def handleUpload_def split: option.splits)
next
  case (UploadResolved data)
  with assms show ?thesis by (auto simp: upload_step_def upload_resolved_def)
next
  case (UploadRejected e)
  with assms show ?thesis by (auto simp: upload_step_def upload_rejected_def)
next
  case Reset
  with assms show ?thesis by (auto simp: upload_step_def handleReset_def)
qed

lemma uploaded_files_valid:
  "(\<forall>f. up_file st = Some f \<longrightarrow> validateFile f = None) \<Longrightarrow>
   f \<in> set (uploaded_files evs st) \<Longrightarrow> validateFile f = None"
proof (induction evs arbitrary: st)
  case Nil
  then show ?case by simp
next
  case (Cons ev evs)
  obtain st' sent where step: "upload_step ev st = (st', sent)"
    by (cases "upload_step ev st")
  from upload_step_valid [OF Cons.prems(1) step]
  have inv: "\<forall>f. up_file st' = Some f \<longrightarrow> validateFile f = None"
    and sent: "\<forall>f \<in> set sent. validateFile f = None"
    by blast+
  from Cons.prems(2) step have "f \<in> set sent \<or> f \<in> set (uploaded_files evs st')"
    by simp
  then show ?case
    using sent Cons.IH [OF inv] by blast
qed

text \<open>
  Claim C6. For every file of an accepted MIME type, validation accepts the size
  \<open>10 * 1024 * 1024\<close> and rejects the size \<open>10 * 1024 * 1024 + 1\<close>. The rejected file is
  not stored as the selected file by either input handler, and no run of the page from
  its initial state ever hands it to the upload call.
\<close>

theorem upload_size_boundary:
  assumes "file_type f \<in> set validTypes"
  shows "validateFile (f\<lparr>file_size := 10 * 1024 * 1024\<rparr>) = None
       \<and> validateFile (f\<lparr>file_size := 10 * 1024 * 1024 + 1\<rparr>)
           = Some ''File size must be less than 10MB''
       \<and> up_file (handleFileInput (Some (f\<lparr>file_size := 10 * 1024 * 1024 + 1\<rparr>)) st) = up_file st
       \<and> up_file (handleDrop (Some (f\<lparr>file_size := 10 * 1024 * 1024 + 1\<rparr>)) st) = up_file st
       \<and> f\<lparr>file_size := 10 * 1024 * 1024 + 1\<rparr> \<notin> set (uploaded_files evs initial_upload_state)"
proof -
  have big: "validateFile (f\<lparr>file_size := 10 * 1024 * 1024 + 1\<rparr>)
               = Some ''File size must be less than 10MB''"
    using assms by (simp add: validateFile_def maxSize_def)
  have ok: "validateFile (f\<lparr>file_size := 10 * 1024 * 1024\<rparr>) = None"
    using assms by (simp add: validateFile_def maxSize_def)
  have never: "f\<lparr>file_size := 10 * 1024 * 1024 + 1\<rparr> \<notin> set (uploaded_files evs initial_upload_state)"
  proof
    assume "f\<lparr>file_size := 10 * 1024 * 1024 + 1\<rparr> \<in> set (uploaded_files evs initial_upload_state)"
    then have "validateFile (f\<lparr>file_size := 10 * 1024 * 1024 + 1\<rparr>) = None"
      by (rule uploaded_files_valid [rotated]) (simp add: initial_upload_state_def)
    with big show False by simp
  qed
  show ?thesis
    using big ok never
    by (simp add: handleFileInput_def handleDrop_def accept_or_report_def)
qed

theorem upload_size_boundary_witness:
  "''application/pdf'' \<in> set validTypes
   \<and> validateFile \<lparr>file_name = ''a.pdf'', file_type = ''application/pdf'', file_size = 10485760\<rparr> = None
   \<and> validateFile \<lparr>file_name = ''a.pdf'', file_type = ''application/pdf'', file_size = 10485761\<rparr>
       = Some ''File size must be less than 10MB''
   \<and> \<lparr>file_name = ''a.pdf'', file_type = ''application/pdf'', file_size = 10485761\<rparr>
       \<notin> set (uploaded_files
                [FileInput (Some \<lparr>file_name = ''a.pdf'', file_type = ''application/pdf'',
                                   file_size = 10485761\<rparr>),
                 ClickUpload]
                (initial_upload_state :: unit upload_state))"
proof -
  have h: "file_type \<lparr>file_name = ''a.pdf'', file_type = ''application/pdf'', file_size = 0\<rparr>
             \<in> set validTypes"
    by (simp add: validTypes_def)
  show ?thesis
    using h upload_size_boundary [OF h, of "initial_upload_state :: unit upload_state"
        "[FileInput (Some \<lparr>file_name = ''a.pdf'', file_type = ''application/pdf'',
                            file_size = 10485761\<rparr>),
          ClickUpload] :: unit upload_event list"]
    by (simp del: uploaded_files.simps)
qed

section \<open>Properties of matching\<close>

lemma isProcessing_addMessage:
  "isProcessing (addMessage newId now type content md replaceLast appendToLast st) = isProcessing st"
  by (simp add: addMessage_def Let_def)

lemma isProcessing_createNewChat:
  "isProcessing (createNewChat newChatId now st) = isProcessing st"
  by (simp add: createNewChat_def Let_def split: option.splits)

lemma isProcessing_finish_matching: "isProcessing (finish_matching st) = False"
  by (simp add: finish_matching_def)

text \<open>A \<open>success\<close> event without a payload falls through every branch: nothing is reset.\<close>

lemma success_without_payload_is_ignored:
  "sse_status u = ''success'' \<Longrightarrow> sse_data u = None \<Longrightarrow>
   match_onStatusUpdate capturedQuery newId now u st = (st, [])"
  by (simp add: match_onStatusUpdate_def)

text \<open>
  Claim C4. With a non-blank query and the flag clear, \<^verbatim>\<open>handleStartMatching\<close> issues the
  streaming request and the flag is set; with the flag set it issues no request. The
  flag is clear after the status callback has handled a \<open>success\<close> event with a payload
  (match found or not), an \<open>error\<close> event or a \<open>no_templates\<close> event, and after the error
  callback.
\<close>

theorem match_guard_flag_set_and_cleared:
  "(trim query \<noteq> []
      \<and> query = (case truthy_str queryOverride of Some q \<Rightarrow> q | None \<Rightarrow> userQuery st)
      \<and> \<not> isProcessing st
     \<longrightarrow> isProcessing (fst (handleStartMatching newChatId newId now queryOverride st))
         \<and> snd (handleStartMatching newChatId newId now queryOverride st)
             = [MatchTemplateStream query])
   \<and> (isProcessing st \<longrightarrow> snd (handleStartMatching newChatId newId now queryOverride st) = [])
   \<and> (sse_status u = ''success'' \<and> sse_data u = Some r
        \<longrightarrow> \<not> isProcessing (fst (match_onStatusUpdate capturedQuery newId now u st)))
   \<and> (sse_status u = ''error''
        \<longrightarrow> \<not> isProcessing (fst (match_onStatusUpdate capturedQuery newId now u st)))
   \<and> (sse_status u = ''no_templates''
        \<longrightarrow> \<not> isProcessing (fst (match_onStatusUpdate capturedQuery newId now u st)))
   \<and> \<not> isProcessing (match_onError newId now e st)"
proof -
  note flag = isProcessing_addMessage isProcessing_createNewChat isProcessing_finish_matching
  have start: "isProcessing (fst (handleStartMatching newChatId newId now queryOverride st))
         \<and> snd (handleStartMatching newChatId newId now queryOverride st) = [MatchTemplateStream query]"
    if "trim query \<noteq> []"
      and "query = (case truthy_str queryOverride of Some q \<Rightarrow> q | None \<Rightarrow> userQuery st)"
      and "\<not> isProcessing st"
    using that by (simp add: handleStartMatching_def Let_def flag)
  have again: "snd (handleStartMatching newChatId newId now queryOverride st) = []"
    if "isProcessing st"
    using that by (simp add: handleStartMatching_def Let_def flag)
  have succ: "\<not> isProcessing (fst (match_onStatusUpdate capturedQuery newId now u st))"
    if "sse_status u = ''success''" and "sse_data u = Some r"
    using that
    by (simp add: match_onStatusUpdate_def handleGetQuestions_begin_def Let_def flag
        split: option.splits)
  have err: "\<not> isProcessing (fst (match_onStatusUpdate capturedQuery newId now u st))"
    if "sse_status u = ''error''"
    using that by (simp add: match_onStatusUpdate_def flag)
  have nt: "\<not> isProcessing (fst (match_onStatusUpdate capturedQuery newId now u st))"
    if "sse_status u = ''no_templates''"
    using that by (simp add: match_onStatusUpdate_def flag)
  have oe: "\<not> isProcessing (match_onError newId now e st)"
    by (simp add: match_onError_def flag)
  from start again succ err nt oe show ?thesis by blast
qed

theorem match_guard_flag_set_and_cleared_witness:
  "isProcessing (fst (handleStartMatching ''c1'' ''m1'' 1 (Some ''a lease'') initial_chat_state))
   \<and> snd (handleStartMatching ''c1'' ''m1'' 1 (Some ''a lease'') initial_chat_state)
       = [MatchTemplateStream ''a lease'']
   \<and> snd (handleStartMatching ''c2'' ''m2'' 2 (Some ''a lease'')
            (fst (handleStartMatching ''c1'' ''m1'' 1 (Some ''a lease'') initial_chat_state))) = []
   \<and> \<not> isProcessing (fst (match_onStatusUpdate ''a lease'' ''m3'' 3 example_success
            (initial_chat_state\<lparr>isProcessing := True\<rparr>)))
   \<and> \<not> isProcessing (fst (match_onStatusUpdate ''a lease'' ''m3'' 3
            \<lparr>sse_status = ''error'', sse_message = ''boom'', sse_data = None\<rparr>
            (initial_chat_state\<lparr>isProcessing := True\<rparr>)))
   \<and> \<not> isProcessing (fst (match_onStatusUpdate ''a lease'' ''m3'' 3
            \<lparr>sse_status = ''no_templates'', sse_message = ''none'', sse_data = None\<rparr>
            (initial_chat_state\<lparr>isProcessing := True\<rparr>)))"
proof -
  have q: "trim ''a lease'' \<noteq> []"
    "''a lease'' = (case truthy_str (Some ''a lease'') of Some q \<Rightarrow> q
                    | None \<Rightarrow> userQuery initial_chat_state)"
    "\<not> isProcessing initial_chat_state"
    by (simp_all add: trim_def is_ws_def truthy_str_def initial_chat_state_def)
  note a = match_guard_flag_set_and_cleared
      [where query = "''a lease''" and queryOverride = "Some ''a lease''"
         and st = initial_chat_state and newChatId = "''c1''" and newId = "''m1''" and now = 1]
  from a q have started:
    "isProcessing (fst (handleStartMatching ''c1'' ''m1'' 1 (Some ''a lease'') initial_chat_state))"
    "snd (handleStartMatching ''c1'' ''m1'' 1 (Some ''a lease'') initial_chat_state)
       = [MatchTemplateStream ''a lease'']"
    by blast+
  note b = match_guard_flag_set_and_cleared
      [where queryOverride = "Some ''a lease''"
         and st = "fst (handleStartMatching ''c1'' ''m1'' 1 (Some ''a lease'') initial_chat_state)"
         and newChatId = "''c2''" and newId = "''m2''" and now = 2]
  from b started(1) have second:
    "snd (handleStartMatching ''c2'' ''m2'' 2 (Some ''a lease'')
            (fst (handleStartMatching ''c1'' ''m1'' 1 (Some ''a lease'') initial_chat_state))) = []"
    by blast
  have s: "sse_status example_success = ''success''"
    "sse_data example_success
       = Some \<lparr>tmr_top_match = Some example_match, tmr_alternatives = [], tmr_found = True,
               tmr_message = None\<rparr>"
    by (simp_all add: example_success_def)
  note c = match_guard_flag_set_and_cleared
      [where st = "initial_chat_state\<lparr>isProcessing := True\<rparr>" and newId = "''m3''" and now = 3
         and u = example_success and capturedQuery = "''a lease''"
         and r = "\<lparr>tmr_top_match = Some example_match, tmr_alternatives = [], tmr_found = True,
                   tmr_message = None\<rparr>"]
  from c s have succ:
    "\<not> isProcessing (fst (match_onStatusUpdate ''a lease'' ''m3'' 3 example_success
            (initial_chat_state\<lparr>isProcessing := True\<rparr>)))"
    by blast
  note d = match_guard_flag_set_and_cleared
      [where st = "initial_chat_state\<lparr>isProcessing := True\<rparr>" and newId = "''m3''" and now = 3
         and u = "\<lparr>sse_status = ''error'', sse_message = ''boom'', sse_data = None\<rparr>"
         and capturedQuery = "''a lease''"]
  from d have err:
    "\<not> isProcessing (fst (match_onStatusUpdate ''a lease'' ''m3'' 3
            \<lparr>sse_status = ''error'', sse_message = ''boom'', sse_data = None\<rparr>
            (initial_chat_state\<lparr>isProcessing := True\<rparr>)))"
    by simp
  note e = match_guard_flag_set_and_cleared
      [where st = "initial_chat_state\<lparr>isProcessing := True\<rparr>" and newId = "''m3''" and now = 3
         and u = "\<lparr>sse_status = ''no_templates'', sse_message = ''none'', sse_data = None\<rparr>"
         and capturedQuery = "''a lease''"]
  from e have nt:
    "\<not> isProcessing (fst (match_onStatusUpdate ''a lease'' ''m3'' 3
            \<lparr>sse_status = ''no_templates'', sse_message = ''none'', sse_data = None\<rparr>
            (initial_chat_state\<lparr>isProcessing := True\<rparr>)))"
    by simp
  from started second succ err nt show ?thesis by blast
qed

lemma split_nl_line:
  "CHR 0x0A \<notin> set a \<Longrightarrow> split_nl (a @ CHR 0x0A # b) = a # split_nl b"
  by (induction a) auto

lemma read_one_line:
  assumes "CHR 0x0A \<notin> set line" and "startsWith line ''data: ''"
    and "parse (drop 6 line) = Some u"
  shows "stream_step parse (ReadChunk (line @ [CHR 0x0A, CHR 0x0A]))
           \<lparr>canceled = False, phase = AwaitingRead []\<rparr>
         = (\<lparr>canceled = False,
             phase = (if terminal_status (sse_status u) then Finished else AwaitingRead [])\<rparr>,
            [OnStatusUpdate u])"
proof -
  have "split_nl (line @ CHR 0x0A # [CHR 0x0A]) = line # split_nl [CHR 0x0A]"
    using assms(1) by (rule split_nl_line)
  then have sp: "split_nl (line @ [CHR 0x0A, CHR 0x0A]) = [line, [], []]"
    by simp
  show ?thesis
    using assms(2,3) by (simp add: stream_step_def sp startsWith_def)
qed

text \<open>
  A stream that sends a \<open>searching\<close> event and then a \<open>success\<close> event, one per chunk and
  each closed by a blank line, makes exactly the two status calls, in order.
\<close>

lemma stream_delivers_searching_then_success:
  assumes "CHR 0x0A \<notin> set p1" and "parse p1 = Some u1" and "sse_status u1 = ''searching''"
    and "CHR 0x0A \<notin> set p2" and "parse p2 = Some u2" and "sse_status u2 = ''success''"
  shows "map snd (run_stream parse
           [FetchResolved True 200 True,
            ReadChunk ((''data: '' @ p1) @ [CHR 0x0A, CHR 0x0A]),
            ReadChunk ((''data: '' @ p2) @ [CHR 0x0A, CHR 0x0A])] initial_stream)
         = [OnStatusUpdate u1, OnStatusUpdate u2]"
proof -
  have f: "stream_step parse (FetchResolved True 200 True) initial_stream
             = (\<lparr>canceled = False, phase = AwaitingRead []\<rparr>, [])"
    by (simp add: stream_step_def initial_stream_def)
  have r1: "stream_step parse (ReadChunk ((''data: '' @ p1) @ [CHR 0x0A, CHR 0x0A]))
              \<lparr>canceled = False, phase = AwaitingRead []\<rparr>
            = (\<lparr>canceled = False, phase = AwaitingRead []\<rparr>, [OnStatusUpdate u1])"
    using read_one_line [where line = "''data: '' @ p1" and parse = parse and u = u1] assms(1,2,3)
    by (simp add: startsWith_def terminal_status_def)
  have r2: "stream_step parse (ReadChunk ((''data: '' @ p2) @ [CHR 0x0A, CHR 0x0A]))
              \<lparr>canceled = False, phase = AwaitingRead []\<rparr>
            = (\<lparr>canceled = False, phase = Finished\<rparr>, [OnStatusUpdate u2])"
    using read_one_line [where line = "''data: '' @ p2" and parse = parse and u = u2] assms(4,5,6)
    by (simp add: startsWith_def terminal_status_def)
  show ?thesis
    using f r1 r2 by simp
qed

text \<open>
  Claim C8. When the stream delivers a \<open>searching\<close> event and then a \<open>success\<close> event
  whose payload has \<open>found = true\<close>, a top match and no alternatives, the consumer sets the
  selected template to the top match's identifier and issues exactly one request, the
  question fetch for that identifier. The searching line is replaced by one message
  without metadata, so no message offering a template choice is added.
\<close>

theorem single_match_auto_selects_template:
  assumes "sse_status u1 = ''searching''"
    and "sse_status u2 = ''success''" and "sse_data u2 = Some r"
    and "tmr_found r" and "tmr_top_match r = Some t" and "tmr_alternatives r = []"
  shows "let outcome = match_consume capturedQuery
                         [(id1, now1, OnStatusUpdate u1), (id2, now2, OnStatusUpdate u2)] st
         in selectedTemplateId (fst outcome) = Some (tm_template_id t)
          \<and> snd outcome = [GetQuestions (tm_template_id t) (Some capturedQuery)]
          \<and> messages (fst outcome) = messages st @
                [\<lparr>msg_id = id2, msg_type = Assistant,
                  msg_content = ''Perfect! I found a matching template: '' @ [CHR 0x22]
                     @ tm_title t @ [CHR 0x22]
                     @ ''. Let me generate some questions to help create your document.'',
                  msg_timestamp = now2, msg_metadata = None\<rparr>]
          \<and> filter offers_template_choice (messages (fst outcome))
              = filter offers_template_choice (messages st)"
  using assms
  by (simp add: match_onStatusUpdate_def handleGetQuestions_begin_def finish_matching_def
      addMessage_def js_assign_index_def offers_template_choice_def Let_def)

theorem single_match_auto_selects_template_witness:
  "sse_status example_searching = ''searching'' \<and> sse_status example_success = ''success''
   \<and> selectedTemplateId (fst (match_consume ''a lease''
         [(''m2'', 2, OnStatusUpdate example_searching), (''m3'', 3, OnStatusUpdate example_success)]
         initial_chat_state)) = Some ''tpl_lease''
   \<and> snd (match_consume ''a lease''
         [(''m2'', 2, OnStatusUpdate example_searching), (''m3'', 3, OnStatusUpdate example_success)]
         initial_chat_state) = [GetQuestions ''tpl_lease'' (Some ''a lease'')]
   \<and> filter offers_template_choice (messages (fst (match_consume ''a lease''
         [(''m2'', 2, OnStatusUpdate example_searching), (''m3'', 3, OnStatusUpdate example_success)]
         initial_chat_state))) = []"
proof -
  have h: "sse_status example_searching = ''searching''" "sse_status example_success = ''success''"
    "sse_data example_success = Some \<lparr>tmr_top_match = Some example_match, tmr_alternatives = [],
                       tmr_found = True, tmr_message = None\<rparr>"
    "tmr_found \<lparr>tmr_top_match = Some example_match, tmr_alternatives = [],
                       tmr_found = True, tmr_message = None\<rparr>"
    "tmr_top_match \<lparr>tmr_top_match = Some example_match, tmr_alternatives = [],
                       tmr_found = True, tmr_message = None\<rparr> = Some example_match"
    "tmr_alternatives \<lparr>tmr_top_match = Some example_match, tmr_alternatives = [],
                       tmr_found = True, tmr_message = None\<rparr> = []"
    by (simp_all add: example_searching_def example_success_def)
  have v: "tm_template_id example_match = ''tpl_lease''"
    "filter offers_template_choice (messages initial_chat_state) = []"
    by (simp_all add: example_match_def initial_chat_state_def)
  note r = single_match_auto_selects_template
      [OF h, where capturedQuery = "''a lease''" and ?id1.0 = "''m2''" and ?now1.0 = 2
         and ?id2.0 = "''m3''" and ?now2.0 = 3 and st = initial_chat_state, unfolded Let_def v]
  show ?thesis
    using h(1,2) r [THEN conjunct1] r [THEN conjunct2, THEN conjunct1]
      r [THEN conjunct2, THEN conjunct2, THEN conjunct2]
    by blast
qed

section \<open>Properties of the streaming match operation\<close>

text \<open>Once the task is over, no event fires a callback.\<close>

lemma finished_stream_is_silent:
  "phase st = Finished \<Longrightarrow> run_stream parse evs st = []"
proof (induction evs arbitrary: st)
  case Nil
  then show ?case by simp
next
  case (Cons ev evs)
  have "stream_step parse ev st = (st, [])
        \<or> stream_step parse ev st = (st\<lparr>canceled := True\<rparr>, [])"
    using Cons.prems by (cases ev) (simp_all add: stream_step_def)
  then show ?case
    using Cons by auto
qed

text \<open>
  After cancellation, an event either changes nothing and fires nothing, or it ends the
  task: callbacks can come from the one settlement that was pending, and from no later one.
\<close>

lemma canceled_step:
  assumes "canceled st" and "stream_step parse ev st = (st', cs)"
  shows "(st' = st \<and> cs = []) \<or> phase st' = Finished"
  using assms
  by (cases ev; cases "phase st")
     (auto simp: stream_step_def catch_handler_def Let_def split: prod.splits if_splits)

text \<open>After cancellation the \<^verbatim>\<open>.catch\<close> handler stays silent.\<close>

lemma canceled_catch_is_silent:
  "canceled st \<Longrightarrow> snd (catch_handler e st) = []"
  by (simp add: catch_handler_def)

text \<open>
  Claim C3 at a failing input. The fetch has resolved and a read is pending when the
  caller cancels. The chunk that then arrives is still processed: a status line in it
  fires the status callback, and a malformed line fires the error callback, both after
  cancellation.
\<close>

theorem cancelled_stream_still_fires_callbacks:
  "callbacks_after_cancel parse_searching_only
      [FetchResolved True 200 True, Cancel,
       ReadChunk (''data: {\"status\":\"searching\",\"message\":\"Searching templates\"}''
                    @ [CHR 0x0A])]
     = [OnStatusUpdate \<lparr>sse_status = ''searching'', sse_message = ''Searching templates'',
                         sse_data = None\<rparr>]
   \<and> callbacks_after_cancel parse_searching_only
      [FetchResolved True 200 True, Cancel, ReadChunk (''data: {oops'' @ [CHR 0x0A])]
     = [OnError (Error ''Failed to parse server response'')]"
  by (simp add: callbacks_after_cancel_def initial_stream_def stream_step_def startsWith_def
      parse_searching_only_def terminal_status_def)

section \<open>Properties of filling with examples\<close>

lemma map_of_obj_set: "map_of (obj_set obj k v) = (map_of obj)(k \<mapsto> v)"
  by (induction obj) (auto simp: fun_eq_iff)

lemma obj_get_obj_set:
  "obj_get (obj_set obj k v) k' = (if k' = k then Some v else obj_get obj k')"
  by (simp add: obj_get_def map_of_obj_set)

lemma obj_spread_untouched:
  "obj_get b k = None \<Longrightarrow> obj_get (obj_spread a b) k = obj_get a k"
proof (induction b arbitrary: a)
  case Nil
  then show ?case by simp
next
  case (Cons p b)
  obtain k' v' where p: "p = (k', v')"
    by (cases p)
  from Cons.prems p have "k \<noteq> k'" and rest: "obj_get b k = None"
    by (auto simp: obj_get_def split: if_splits)
  then show ?case
    unfolding p by (simp add: Cons.IH [OF rest] obj_get_obj_set)
qed

lemma fill_question_untouched:
  assumes "obj_get examples k = None"
    and "answer_truthy (obj_get current k) \<or> q_key question \<noteq> k
         \<or> truthy_str (q_example question) = None"
  shows "obj_get (fill_question toNumber current examples question) k = None"
  using assms
  by (auto simp: fill_question_def obj_get_obj_set split: option.splits)

lemma foldl_fill_untouched:
  assumes "obj_get examples k = None"
    and "answer_truthy (obj_get current k)
         \<or> (\<forall>question \<in> set qs. q_key question \<noteq> k \<or> truthy_str (q_example question) = None)"
  shows "obj_get (foldl (fill_question toNumber current) examples qs) k = None"
  using assms
proof (induction qs arbitrary: examples)
  case Nil
  then show ?case by simp
next
  case (Cons question qs)
  have one: "obj_get (fill_question toNumber current examples question) k = None"
    using Cons.prems by (intro fill_question_untouched) auto
  have rest: "answer_truthy (obj_get current k)
         \<or> (\<forall>question \<in> set qs. q_key question \<noteq> k \<or> truthy_str (q_example question) = None)"
    using Cons.prems(2) by auto
  show ?case
    using Cons.IH [OF one rest] by simp
qed

text \<open>
  What does hold: a key keeps its value when its current answer is truthy, or when no
  question with that key declares a non-empty example.
\<close>

lemma fill_with_examples_keeps_truthy_answers:
  assumes "answer_truthy (obj_get (answers st) k)
         \<or> (\<forall>question \<in> set (questions st).
               q_key question \<noteq> k \<or> truthy_str (q_example question) = None)"
  shows "obj_get (answers (handleFillWithExamples toNumber st)) k = obj_get (answers st) k"
proof -
  have "obj_get (foldl (fill_question toNumber (answers st)) [] (questions st)) k = None"
    using assms by (intro foldl_fill_untouched) (simp_all add: obj_get_def)
  then show ?thesis
    by (simp add: handleFillWithExamples_def Let_def obj_spread_untouched)
qed

text \<open>
  Claim C10 at a failing input. The answer \<open>0\<close> to a numeric question and the answer
  \<open>false\<close> to a boolean question are values, not absent and not the empty string, and
  filling with examples overwrites both.
\<close>

theorem fill_with_examples_overwrites_falsy_answers:
  "answers (handleFillWithExamples toNumber_digits
      (initial_chat_state
         \<lparr>questions := [\<lparr>q_key = ''count'', q_question = ''How many copies?'',
                         q_description = None, q_example = Some ''5'', q_required = True,
                         q_dtype = ''number'', q_regex = None, q_enum_values = None\<rparr>],
          answers := [(''count'', Number (Num 0))]\<rparr>))
     = [(''count'', Number (Num 5))]
   \<and> answers (handleFillWithExamples toNumber_digits
      (initial_chat_state
         \<lparr>questions := [\<lparr>q_key = ''notarized'', q_question = ''Notarized?'',
                         q_description = None, q_example = Some ''Yes'', q_required = True,
                         q_dtype = ''boolean'', q_regex = None, q_enum_values = None\<rparr>],
          answers := [(''notarized'', Boolean False)]\<rparr>))
     = [(''notarized'', Boolean True)]"
  by (simp add: handleFillWithExamples_def fill_question_def truthy_str_def obj_get_def
      example_value_def toNumber_digits_def initial_chat_state_def toLowerCase_def lower_char_def)

section \<open>Properties of the session store\<close>

lemma find_list_update_other:
  "findIndex P xs = Some i \<Longrightarrow> \<not> Q y \<Longrightarrow> (\<And>x. P x \<Longrightarrow> \<not> Q x) \<Longrightarrow>
   find Q (xs[i := y]) = find Q xs"
proof (induction xs arbitrary: i)
  case Nil
  then show ?case by simp
next
  case (Cons x xs)
  show ?case
  proof (cases "P x")
    case True
    with Cons.prems show ?thesis by simp
  next
    case False
    with Cons.prems obtain j where j: "findIndex P xs = Some j" "i = Suc j"
      by (auto split: if_splits)
    with Cons.IH [OF j(1) Cons.prems(2) Cons.prems(3)] show ?thesis
      by simp
  qed
qed

lemma find_list_update_same:
  "findIndex P xs = Some i \<Longrightarrow> P y \<Longrightarrow> find P (xs[i := y]) = Some y"
proof (induction xs arbitrary: i)
  case Nil
  then show ?case by simp
next
  case (Cons x xs)
  then show ?case
    by (cases "P x") (auto split: if_splits)
qed

text \<open>An upsert leaves the first stored session of every other identifier as it is.\<close>

lemma find_upsert_other:
  "cs_id chat \<noteq> sid \<Longrightarrow>
   find (\<lambda>c. cs_id c = sid) (upsert_session chat prev) = find (\<lambda>c. cs_id c = sid) prev"
  by (cases "findIndex (\<lambda>c. cs_id c = cs_id chat) prev")
     (auto simp: upsert_session_def intro: find_list_update_other)

lemma find_upsert_same:
  "find (\<lambda>c. cs_id c = cs_id chat) (upsert_session chat prev) = Some chat"
  by (cases "findIndex (\<lambda>c. cs_id c = cs_id chat) prev")
     (auto simp: upsert_session_def intro: find_list_update_same)

lemma cs_id_session_of_state: "cs_id (session_of_state chatId now st) = chatId"
  by (simp add: session_of_state_def)

lemma history_effect_away:
  "away_from sid snap st \<Longrightarrow> away_from sid snap (history_effect now st)"
  by (auto simp: away_from_def history_effect_def updateCurrentChatInHistory_def truthy_str_def
      find_upsert_other cs_id_session_of_state split: option.splits if_splits)

lemma switchToChat_away:
  "away_from sid snap st \<Longrightarrow> chatId \<noteq> sid \<Longrightarrow> away_from sid snap (switchToChat chatId st)"
  by (auto simp: away_from_def switchToChat_def split: option.splits)

lemma createNewChat_away:
  "away_from sid snap st \<Longrightarrow> newChatId \<noteq> sid \<Longrightarrow>
   away_from sid snap (createNewChat newChatId now st)"
  by (auto simp: away_from_def createNewChat_def Let_def truthy_str_def find_upsert_other
      cs_id_session_of_state split: option.splits if_splits)

lemma local_update_away:
  "away_from sid snap st \<Longrightarrow> away_from sid snap (local_update u st)"
  by (simp add: away_from_def local_update_def)

lemma perform_away:
  "away_from sid snap st \<Longrightarrow> stays_away sid a \<Longrightarrow> away_from sid snap (perform now a st)"
  by (cases a)
     (simp_all add: perform_def history_effect_away switchToChat_away createNewChat_away
        local_update_away)

lemma perform_all_away:
  "away_from sid snap st \<Longrightarrow> list_all (\<lambda>(now, a). stays_away sid a) acts \<Longrightarrow>
   away_from sid snap (perform_all acts st)"
  by (induction acts arbitrary: st) (auto simp: perform_away)

lemma switchToChat_restores:
  assumes "find (\<lambda>c. cs_id c = sid) (chatHistory st) = Some snap"
  shows "switchToChat sid st =
           st\<lparr>currentChatId := Some sid, messages := cs_messages snap,
              selectedTemplateId := truthy_str (cs_templateId snap),
              questions := or_default (cs_questions snap) [],
              answers := or_default (cs_answers snap) [],
              prefilledFields := [], draft := cs_draft snap,
              showSidebar := ((case cs_questions snap of None \<Rightarrow> False
                               | Some qs \<Rightarrow> length qs > 0)
                              \<or> cs_draft snap \<noteq> None),
              activeTab := (if cs_draft snap \<noteq> None then Document else Variables)\<rparr>"
  using assms by (simp add: switchToChat_def)

lemma history_effect_records:
  assumes "currentChatId s0 = Some sid" and "sid \<noteq> []" and "messages s0 \<noteq> []"
  shows "find (\<lambda>c. cs_id c = sid) (chatHistory (history_effect now s0))
           = Some (session_of_state sid now s0)"
  using assms find_upsert_same [of "session_of_state sid now s0" "chatHistory s0"]
  by (simp add: history_effect_def updateCurrentChatInHistory_def truthy_str_def
      cs_id_session_of_state)

lemma history_effect_keeps_other:
  assumes "currentChatId s0 = Some sid" and "tid \<noteq> sid"
  shows "find (\<lambda>c. cs_id c = tid) (chatHistory (history_effect now s0))
           = find (\<lambda>c. cs_id c = tid) (chatHistory s0)"
  using assms
  by (auto simp: history_effect_def updateCurrentChatInHistory_def truthy_str_def
      find_upsert_other cs_id_session_of_state split: if_splits)

lemma history_effect_only_history:
  "history_effect now st = st\<lparr>chatHistory := chatHistory (history_effect now st)\<rparr>"
  by (simp add: history_effect_def updateCurrentChatInHistory_def split: option.splits)

lemma session_of_state_history:
  "session_of_state sid now (st\<lparr>chatHistory := h\<rparr>) = session_of_state sid now st"
  by (simp add: session_of_state_def)

lemma same_content_session_of_state:
  "same_content (session_of_state sid t1 st) (session_of_state sid t0 st)"
  by (simp add: same_content_def session_of_state_def)

text \<open>
  Leaving a recorded session: afterwards it is stored, not current, and its stored
  snapshot has the content that the history effect recorded.
\<close>

lemma departure_away:
  assumes cur: "currentChatId s0 = Some sid" "sid \<noteq> []" "messages s0 \<noteq> []"
    and dep: "departs sid (chatHistory s0) a0"
  shows "\<exists>snap'. away_from sid snap' (perform t1 a0 (history_effect t0 s0))
               \<and> same_content snap' (session_of_state sid t0 s0)"
proof (cases a0)
  case (SwitchToChat tid)
  with dep obtain target
    where t: "tid \<noteq> sid" "find (\<lambda>c. cs_id c = tid) (chatHistory s0) = Some target"
    by auto
  have rec: "find (\<lambda>c. cs_id c = sid) (chatHistory (history_effect t0 s0))
               = Some (session_of_state sid t0 s0)"
    using cur by (rule history_effect_records)
  have tgt: "find (\<lambda>c. cs_id c = tid) (chatHistory (history_effect t0 s0)) = Some target"
    using history_effect_keeps_other [OF cur(1) t(1)] t(2) by simp
  have "away_from sid (session_of_state sid t0 s0) (switchToChat tid (history_effect t0 s0))"
    using rec tgt t(1) by (simp add: away_from_def switchToChat_def)
  then have "away_from sid (session_of_state sid t0 s0) (perform t1 a0 (history_effect t0 s0))"
    unfolding SwitchToChat perform_def by (simp add: history_effect_away)
  then show ?thesis
    by (auto simp: same_content_def)
next
  case (CreateNewChat nid)
  with dep have n: "nid \<noteq> sid"
    by simp
  define saved where "saved = history_effect t0 s0"
  have sv: "saved = s0\<lparr>chatHistory := chatHistory saved\<rparr>"
    unfolding saved_def by (rule history_effect_only_history)
  have c: "currentChatId saved = Some sid" "messages saved \<noteq> []"
    using cur by (subst sv, simp)+
  have snap_eq: "session_of_state sid t1 saved = session_of_state sid t1 s0"
    by (subst sv) (simp add: session_of_state_history)
  have "away_from sid (session_of_state sid t1 saved) (createNewChat nid t1 saved)"
    using c cur(2) n find_upsert_same [of "session_of_state sid t1 saved" "chatHistory saved"]
    by (simp add: away_from_def createNewChat_def truthy_str_def cs_id_session_of_state)
  then have "away_from sid (session_of_state sid t1 s0) (perform t1 a0 saved)"
    unfolding CreateNewChat perform_def snap_eq by (simp add: history_effect_away)
  then show ?thesis
    unfolding saved_def using same_content_session_of_state by blast
next
  case (Local u)
  with dep show ?thesis
    by simp
qed

text \<open>
  Claim C1. Let the session \<open>sid\<close> be current with a non-empty message list, and let the
  history effect record it at clock reading \<open>t0\<close>: the store then holds the snapshot
  \<open>session_of_state sid t0 s0\<close> for it. Leave the session (switch to another stored
  session, or start a new chat), perform any actions that do not make \<open>sid\<close> current
  again, and switch back to \<open>sid\<close>. The message list, the selected template identifier,
  the question list, the answer map and the draft are then exactly those of the snapshot
  (an absent question list or answer map reads as the empty one), which are those of the
  state the snapshot was taken from.
\<close>

theorem switch_away_and_back_restores_snapshot:
  assumes cur: "currentChatId s0 = Some sid" "sid \<noteq> []" "messages s0 \<noteq> []"
    and dep: "departs sid (chatHistory s0) a0"
    and acts: "list_all (\<lambda>(now, a). stays_away sid a) acts"
  shows "let saved = history_effect t0 s0;
             snap = session_of_state sid t0 s0;
             resumed = switchToChat sid (perform_all acts (perform t1 a0 saved))
         in find (\<lambda>c. cs_id c = sid) (chatHistory saved) = Some snap
          \<and> currentChatId resumed = Some sid
          \<and> messages resumed = cs_messages snap
          \<and> selectedTemplateId resumed = cs_templateId snap
          \<and> questions resumed = or_default (cs_questions snap) []
          \<and> answers resumed = or_default (cs_answers snap) []
          \<and> draft resumed = cs_draft snap
          \<and> messages resumed = messages s0
          \<and> selectedTemplateId resumed = truthy_str (selectedTemplateId s0)
          \<and> questions resumed = questions s0
          \<and> answers resumed = answers s0
          \<and> draft resumed = draft s0"
proof -
  define saved where "saved = history_effect t0 s0"
  define snap where "snap = session_of_state sid t0 s0"
  define departed where "departed = perform t1 a0 saved"
  define resumed where "resumed = switchToChat sid (perform_all acts departed)"
  have rec: "find (\<lambda>c. cs_id c = sid) (chatHistory saved) = Some snap"
    unfolding saved_def snap_def using cur by (rule history_effect_records)
  from departure_away [OF cur dep, of t1 t0]
  obtain snap' where away: "away_from sid snap' departed" and same: "same_content snap' snap"
    unfolding departed_def saved_def snap_def by blast
  from away have "away_from sid snap' (perform_all acts departed)"
    using acts by (rule perform_all_away)
  then have "find (\<lambda>c. cs_id c = sid) (chatHistory (perform_all acts departed)) = Some snap'"
    by (simp add: away_from_def)
  from switchToChat_restores [OF this] same
  have b: "currentChatId resumed = Some sid" "messages resumed = cs_messages snap"
    "selectedTemplateId resumed = truthy_str (cs_templateId snap)"
    "questions resumed = or_default (cs_questions snap) []"
    "answers resumed = or_default (cs_answers snap) []"
    "draft resumed = cs_draft snap"
    unfolding resumed_def by (simp_all add: same_content_def)
  have t: "truthy_str (cs_templateId snap) = cs_templateId snap"
    "cs_templateId snap = truthy_str (selectedTemplateId s0)"
    by (simp_all add: snap_def session_of_state_def truthy_str_def split: option.splits)
  have s: "cs_messages snap = messages s0" "or_default (cs_questions snap) [] = questions s0"
    "or_default (cs_answers snap) [] = answers s0" "cs_draft snap = draft s0"
    by (simp_all add: snap_def session_of_state_def or_default_def)
  show ?thesis
    using rec b t s
    by (simp add: Let_def saved_def [symmetric] snap_def [symmetric] departed_def [symmetric]
        resumed_def [symmetric])
qed

theorem switch_away_and_back_restores_snapshot_witness:
  "currentChatId example_state = Some ''s1'' \<and> ''s1'' \<noteq> [] \<and> messages example_state \<noteq> []
   \<and> departs ''s1'' (chatHistory example_state) (SwitchToChat ''t1'')
   \<and> list_all (\<lambda>(now, a). stays_away ''s1'' a)
        [(3, Local (handleAnswerChange ''tenant'' (Str ''Bob''))), (4, CreateNewChat ''n1'')]
   \<and> (let resumed =
          switchToChat ''s1''
            (perform_all
               [(3, Local (handleAnswerChange ''tenant'' (Str ''Bob''))), (4, CreateNewChat ''n1'')]
               (perform 2 (SwitchToChat ''t1'') (history_effect 1 example_state)))
       in currentChatId resumed = Some ''s1''
        \<and> messages resumed = [example_message]
        \<and> selectedTemplateId resumed = Some ''tpl_lease''
        \<and> questions resumed = []
        \<and> answers resumed = [(''tenant'', Str ''Ada'')]
        \<and> draft resumed = None)"
proof -
  have h1: "currentChatId example_state = Some ''s1''"
    and h2: "''s1'' \<noteq> []"
    and h3: "messages example_state \<noteq> []"
    and h4: "departs ''s1'' (chatHistory example_state) (SwitchToChat ''t1'')"
    and h5: "list_all (\<lambda>(now, a). stays_away ''s1'' a)
        [(3, Local (handleAnswerChange ''tenant'' (Str ''Bob''))), (4, CreateNewChat ''n1'')]"
    by (simp_all add: example_state_def initial_chat_state_def example_other_session_def)
  have vals: "messages example_state = [example_message]"
    "truthy_str (selectedTemplateId example_state) = Some ''tpl_lease''"
    "questions example_state = []" "answers example_state = [(''tenant'', Str ''Ada'')]"
    "draft example_state = None"
    by (simp_all add: example_state_def initial_chat_state_def truthy_str_def)
  note r = switch_away_and_back_restores_snapshot
      [OF h1 h2 h3 h4 h5, where ?t0.0 = 1 and ?t1.0 = 2, unfolded Let_def]
  show ?thesis
    unfolding Let_def
    using h1 h2 h3 h4 h5 r [THEN conjunct2, THEN conjunct1]
      r [THEN conjunct2, THEN conjunct2, THEN conjunct2, THEN conjunct2, THEN conjunct2,
         THEN conjunct2, THEN conjunct2]
    unfolding vals
    by blast
qed

end
